theory Spec2Isabelle
  imports Complex_Main "HOL-Library.Log_Nat"
begin

section \<open>Fitness tracker: activity records and the dispatcher\<close>

text \<open>
  The repository holds two versions of one module, \<^verbatim>\<open>fitness_tracker.py\<close> and
  \<^verbatim>\<open>homework.py\<close>. Both declare the classes \<^verbatim>\<open>InfoMessage\<close>, \<^verbatim>\<open>Training\<close>,
  \<^verbatim>\<open>Running\<close>, \<^verbatim>\<open>SportsWalking\<close>, \<^verbatim>\<open>Swimming\<close> and the function
  \<^verbatim>\<open>read_package\<close>. Definitions taken from \<^verbatim>\<open>fitness_tracker.py\<close> carry the prefix
  \<open>ft_\<close>, those from \<^verbatim>\<open>homework.py\<close> the prefix \<open>hw_\<close>; what the two files share
  word for word (the constructors and \<^verbatim>\<open>InfoMessage\<close>) is defined once.

  Numbers. A Python number (an \<^verbatim>\<open>int\<close> or a \<^verbatim>\<open>float\<close>) is modelled by its value, a
  rational. In this first part the arithmetic is exact: \<open>*\<close>, \<open>/\<close>, \<open>+\<close>, \<open>-\<close> are the
  operations of the field of rationals and \<^verbatim>\<open>//\<close> is the floor of the exact quotient.
  This is the reading under which the formulas of the specification are statements
  about the code. The rounding of IEEE-754 doubles is added in the second part, on the
  same code.
\<close>

subsection \<open>Errors and Python's division operators\<close>

datatype error =
    ZeroDivisionError
  | KeyError string
  | UnboundLocalError string
  | TypeError

text \<open>\<^verbatim>\<open>x / y\<close>: raises \<^verbatim>\<open>ZeroDivisionError\<close> when the divisor is zero.\<close>

definition py_truediv :: "rat \<Rightarrow> rat \<Rightarrow> error + rat" where
  "py_truediv x y = (if y = 0 then Inl ZeroDivisionError else Inr (x / y))"

text \<open>\<^verbatim>\<open>x // y\<close>: the floor of the quotient; raises when the divisor is zero.\<close>

definition py_floordiv :: "rat \<Rightarrow> rat \<Rightarrow> error + rat" where
  "py_floordiv x y =
     (if y = 0 then Inl ZeroDivisionError else Inr (of_int \<lfloor>x / y\<rfloor>))"

subsection \<open>The classes\<close>

text \<open>
  \<^verbatim>\<open>InfoMessage\<close>: five fields, set by the constructor. \<^verbatim>\<open>calories\<close> holds whatever
  \<^verbatim>\<open>get_spent_calories\<close> returned, which for the base class is \<^verbatim>\<open>None\<close>.
\<close>

record InfoMessage =
  training_type :: string
  duration :: rat
  distance :: rat
  speed :: rat
  calories :: "rat option"

text \<open>
  An object of the hierarchy is its class together with the fields its constructor
  stores: \<^verbatim>\<open>action\<close>, \<^verbatim>\<open>duration\<close>, \<^verbatim>\<open>weight\<close>, then \<^verbatim>\<open>height\<close> for
  \<^verbatim>\<open>SportsWalking\<close> and \<^verbatim>\<open>length_pool\<close>, \<^verbatim>\<open>count_pool\<close> for \<^verbatim>\<open>Swimming\<close>.
  \<^verbatim>\<open>Running\<close> inherits the constructor of \<^verbatim>\<open>Training\<close>.
\<close>

datatype training =
    Training rat rat rat
  | Running rat rat rat
  | SportsWalking rat rat rat rat
  | Swimming rat rat rat rat rat

fun action :: "training \<Rightarrow> rat" where
  "action (Training a d w) = a"
| "action (Running a d w) = a"
| "action (SportsWalking a d w h) = a"
| "action (Swimming a d w lp cp) = a"

fun duration_of :: "training \<Rightarrow> rat" where
  "duration_of (Training a d w) = d"
| "duration_of (Running a d w) = d"
| "duration_of (SportsWalking a d w h) = d"
| "duration_of (Swimming a d w lp cp) = d"

fun weight :: "training \<Rightarrow> rat" where
  "weight (Training a d w) = w"
| "weight (Running a d w) = w"
| "weight (SportsWalking a d w h) = w"
| "weight (Swimming a d w lp cp) = w"

text \<open>\<^verbatim>\<open>self.__class__.__name__\<close>\<close>

fun class_name :: "training \<Rightarrow> string" where
  "class_name (Training a d w) = ''Training''"
| "class_name (Running a d w) = ''Running''"
| "class_name (SportsWalking a d w h) = ''SportsWalking''"
| "class_name (Swimming a d w lp cp) = ''Swimming''"

text \<open>Class constants. \<^verbatim>\<open>M_IN_KM\<close> and \<^verbatim>\<open>MIN_IN_HOUR\<close> are the same in both files.\<close>

definition M_IN_KM :: rat where
  "M_IN_KM = 1000"

definition MIN_IN_HOUR :: rat where
  "MIN_IN_HOUR = 60"

subsection \<open>The methods of \<^verbatim>\<open>fitness_tracker.py\<close>\<close>

text \<open>
  \<^verbatim>\<open>self.LEN_STEP\<close> is looked up on the class of the object: \<^verbatim>\<open>Swimming\<close> redefines
  the attribute as 1.38, the other classes see 0.65 of \<^verbatim>\<open>Training\<close>.
\<close>

fun ft_LEN_STEP :: "training \<Rightarrow> rat" where
  "ft_LEN_STEP (Swimming a d w lp cp) = 1.38"
| "ft_LEN_STEP t = 0.65"

text \<open>\<^verbatim>\<open>Training.get_distance\<close>, inherited by all three subclasses.\<close>

definition ft_get_distance :: "training \<Rightarrow> rat" where
  "ft_get_distance t = action t * ft_LEN_STEP t / M_IN_KM"

text \<open>\<^verbatim>\<open>Training.get_mean_speed\<close>, overridden by \<^verbatim>\<open>Swimming.get_mean_speed\<close>.\<close>

fun ft_get_mean_speed :: "training \<Rightarrow> error + rat" where
  "ft_get_mean_speed (Swimming a d w lp cp) =
     (let distance_m_pool = lp * cp;
          distance_km_pool = distance_m_pool / M_IN_KM
      in py_truediv distance_km_pool d)"
| "ft_get_mean_speed t = py_truediv (ft_get_distance t) (duration_of t)"

text \<open>
  \<^verbatim>\<open>get_spent_calories\<close>: the body of the base class is \<^verbatim>\<open>pass\<close>, so the call
  returns \<^verbatim>\<open>None\<close>; each subclass overrides it.
\<close>

fun ft_get_spent_calories :: "training \<Rightarrow> error + rat option" where
  "ft_get_spent_calories (Training a d w) = Inr None"
| "ft_get_spent_calories (Running a d w) =
     (case ft_get_mean_speed (Running a d w) of
        Inl e \<Rightarrow> Inl e
      | Inr s \<Rightarrow>
          (let mean_speed_transf = 18 * s - 20;
               duration_in_min = d * MIN_IN_HOUR
           in Inr (Some (mean_speed_transf * w / M_IN_KM * duration_in_min))))"
| "ft_get_spent_calories (SportsWalking a d w h) =
     (let weight_transf = 0.035 * w in
      case ft_get_mean_speed (SportsWalking a d w h) of
        Inl e \<Rightarrow> Inl e
      | Inr s \<Rightarrow>
          (case py_floordiv (s ^ 2) h of
             Inl e \<Rightarrow> Inl e
           | Inr q \<Rightarrow>
               (let sq_speed_by_h_w = q * 0.029 * w;
                    duration_in_min = d * MIN_IN_HOUR
                in Inr (Some ((weight_transf + sq_speed_by_h_w) * duration_in_min)))))"
| "ft_get_spent_calories (Swimming a d w lp cp) =
     (case ft_get_mean_speed (Swimming a d w lp cp) of
        Inl e \<Rightarrow> Inl e
      | Inr s \<Rightarrow>
          (let mean_speed_transf = (s + 1.1) * 2
           in Inr (Some (mean_speed_transf * w))))"

text \<open>
  \<^verbatim>\<open>show_training_info\<close>: the arguments of \<^verbatim>\<open>InfoMessage\<close> are evaluated from left
  to right; the first exception leaves the method.
\<close>

definition ft_show_training_info :: "training \<Rightarrow> error + InfoMessage" where
  "ft_show_training_info t =
     (case ft_get_mean_speed t of
        Inl e \<Rightarrow> Inl e
      | Inr s \<Rightarrow>
          (case ft_get_spent_calories t of
             Inl e \<Rightarrow> Inl e
           | Inr c \<Rightarrow>
               Inr \<lparr>training_type = class_name t, duration = duration_of t,
                    distance = ft_get_distance t, speed = s, calories = c\<rparr>))"

subsection \<open>The methods of \<^verbatim>\<open>homework.py\<close>\<close>

text \<open>
  \<^verbatim>\<open>Training.get_distance\<close> names \<^verbatim>\<open>Training.LEN_STEP\<close> (0.65) explicitly, and
  \<^verbatim>\<open>Swimming\<close> overrides the method with the same expression on
  \<^verbatim>\<open>Swimming.LEN_STEP\<close> (1.38).
\<close>

fun hw_get_distance :: "training \<Rightarrow> rat" where
  "hw_get_distance (Swimming a d w lp cp) = a * 1.38 / M_IN_KM"
| "hw_get_distance t = action t * 0.65 / M_IN_KM"

fun hw_get_mean_speed :: "training \<Rightarrow> error + rat" where
  "hw_get_mean_speed (Swimming a d w lp cp) = py_truediv (lp * cp / M_IN_KM) d"
| "hw_get_mean_speed t = py_truediv (hw_get_distance t) (duration_of t)"

fun hw_get_spent_calories :: "training \<Rightarrow> error + rat option" where
  "hw_get_spent_calories (Training a d w) = Inr None"
| "hw_get_spent_calories (Running a d w) =
     (case hw_get_mean_speed (Running a d w) of
        Inl e \<Rightarrow> Inl e
      | Inr s \<Rightarrow> Inr (Some ((18 * s - 20) * w / M_IN_KM * d * MIN_IN_HOUR)))"
| "hw_get_spent_calories (SportsWalking a d w h) =
     (case hw_get_mean_speed (SportsWalking a d w h) of
        Inl e \<Rightarrow> Inl e
      | Inr s \<Rightarrow>
          (case py_floordiv (s ^ 2) h of
             Inl e \<Rightarrow> Inl e
           | Inr q \<Rightarrow> Inr (Some ((0.035 * w + q * 0.029 * w) * d * MIN_IN_HOUR))))"
| "hw_get_spent_calories (Swimming a d w lp cp) =
     (case hw_get_mean_speed (Swimming a d w lp cp) of
        Inl e \<Rightarrow> Inl e
      | Inr s \<Rightarrow> Inr (Some ((s + 1.1) * 2 * w)))"

definition hw_show_training_info :: "training \<Rightarrow> error + InfoMessage" where
  "hw_show_training_info t =
     (case hw_get_mean_speed t of
        Inl e \<Rightarrow> Inl e
      | Inr s \<Rightarrow>
          (case hw_get_spent_calories t of
             Inl e \<Rightarrow> Inl e
           | Inr c \<Rightarrow>
               Inr \<lparr>training_type = class_name t, duration = duration_of t,
                    distance = hw_get_distance t, speed = s, calories = c\<rparr>))"

subsection \<open>The dispatcher\<close>

text \<open>
  Both files map the three codes to the three subclasses and call the class on the
  unpacked list, \<^verbatim>\<open>cls(*data)\<close>. The constructors take exactly three, four and five
  positional arguments; any other number of them is a \<^verbatim>\<open>TypeError\<close> of the call.
\<close>

datatype activity_class = SwimmingClass | RunningClass | SportsWalkingClass

definition ALL_ACTIVITIES :: "string \<rightharpoonup> activity_class" where
  "ALL_ACTIVITIES =
     [''SWM'' \<mapsto> SwimmingClass, ''RUN'' \<mapsto> RunningClass, ''WLK'' \<mapsto> SportsWalkingClass]"

fun construct :: "activity_class \<Rightarrow> rat list \<Rightarrow> error + training" where
  "construct RunningClass [a, d, w] = Inr (Running a d w)"
| "construct SportsWalkingClass [a, d, w, h] = Inr (SportsWalking a d w h)"
| "construct SwimmingClass [a, d, w, lp, cp] = Inr (Swimming a d w lp cp)"
| "construct c xs = Inl TypeError"

text \<open>
  \<^verbatim>\<open>fitness_tracker.py\<close>: a code that is not a key raises \<^verbatim>\<open>KeyError\<close>; its message
  is a fixed sentence followed by the code, which is what \<open>KeyError\<close> carries here.
\<close>

definition ft_read_package :: "string \<Rightarrow> rat list \<Rightarrow> error + training" where
  "ft_read_package workout_type data =
     (case ALL_ACTIVITIES workout_type of
        None \<Rightarrow> Inl (KeyError workout_type)
      | Some c \<Rightarrow> construct c data)"

text \<open>
  \<^verbatim>\<open>homework.py\<close>: the local variable \<^verbatim>\<open>training\<close> is assigned only inside the
  \<^verbatim>\<open>if\<close>; there is no \<^verbatim>\<open>else\<close>. \<^verbatim>\<open>return training\<close> on an unassigned local raises
  \<^verbatim>\<open>UnboundLocalError\<close>, whose message names the variable. The binding of the local
  is the option \<open>training\<close> below; the dictionary has the entries of \<open>ALL_ACTIVITIES\<close>.
\<close>

definition hw_read_package :: "string \<Rightarrow> rat list \<Rightarrow> error + training" where
  "hw_read_package workout_type data =
     (case (case ALL_ACTIVITIES workout_type of
              Some c \<Rightarrow> map_sum id Some (construct c data)
            | None \<Rightarrow> Inr None) of
        Inl e \<Rightarrow> Inl e
      | Inr training \<Rightarrow>
          (case training of
             None \<Rightarrow> Inl (UnboundLocalError ''training'')
           | Some t \<Rightarrow> Inr t))"



section \<open>The same code with rounded arithmetic\<close>

text \<open>
  Python computes with IEEE-754 doubles: every arithmetic operation on floats returns
  the exact result rounded to a representable number, and a decimal literal denotes the
  representable number nearest to it. The functions of this part are the methods of the
  first part, operation by operation, with a rounding function \<open>fl\<close> applied to the
  result of each operation and to each decimal literal. With \<open>fl\<close> the identity they
  are the functions of the first part; with \<open>fl = b64\<close> they compute what Python
  computes as long as no intermediate result leaves the range of normal doubles (that is,
  overflow, underflow, infinities and NaN are outside the model) and the readings are
  themselves doubles (floats, or integers below \<open>2\<^sup>5\<^sup>3\<close> in magnitude). The integer
  constants 1000, 60, 18, 20 and 2 convert to doubles without rounding.
\<close>

type_synonym rounding = "rat \<Rightarrow> rat"

definition rnd_truediv :: "rounding \<Rightarrow> rat \<Rightarrow> rat \<Rightarrow> error + rat" where
  "rnd_truediv fl x y = (if y = 0 then Inl ZeroDivisionError else Inr (fl (x / y)))"

definition rnd_floordiv :: "rounding \<Rightarrow> rat \<Rightarrow> rat \<Rightarrow> error + rat" where
  "rnd_floordiv fl x y =
     (if y = 0 then Inl ZeroDivisionError else Inr (fl (of_int \<lfloor>x / y\<rfloor>)))"

subsection \<open>\<^verbatim>\<open>fitness_tracker.py\<close>, rounded\<close>

definition ft_get_distance_rnd :: "rounding \<Rightarrow> training \<Rightarrow> rat" where
  "ft_get_distance_rnd fl t = fl (fl (action t * fl (ft_LEN_STEP t)) / M_IN_KM)"

fun ft_get_mean_speed_rnd :: "rounding \<Rightarrow> training \<Rightarrow> error + rat" where
  "ft_get_mean_speed_rnd fl (Swimming a d w lp cp) =
     (let distance_m_pool = fl (lp * cp);
          distance_km_pool = fl (distance_m_pool / M_IN_KM)
      in rnd_truediv fl distance_km_pool d)"
| "ft_get_mean_speed_rnd fl t = rnd_truediv fl (ft_get_distance_rnd fl t) (duration_of t)"

fun ft_get_spent_calories_rnd :: "rounding \<Rightarrow> training \<Rightarrow> error + rat option" where
  "ft_get_spent_calories_rnd fl (Training a d w) = Inr None"
| "ft_get_spent_calories_rnd fl (Running a d w) =
     (case ft_get_mean_speed_rnd fl (Running a d w) of
        Inl e \<Rightarrow> Inl e
      | Inr s \<Rightarrow>
          (let mean_speed_transf = fl (fl (18 * s) - 20);
               duration_in_min = fl (d * MIN_IN_HOUR)
           in Inr (Some (fl (fl (fl (mean_speed_transf * w) / M_IN_KM) * duration_in_min)))))"
| "ft_get_spent_calories_rnd fl (SportsWalking a d w h) =
     (let weight_transf = fl (fl 0.035 * w) in
      case ft_get_mean_speed_rnd fl (SportsWalking a d w h) of
        Inl e \<Rightarrow> Inl e
      | Inr s \<Rightarrow>
          (case rnd_floordiv fl (fl (s ^ 2)) h of
             Inl e \<Rightarrow> Inl e
           | Inr q \<Rightarrow>
               (let sq_speed_by_h_w = fl (fl (q * fl 0.029) * w);
                    duration_in_min = fl (d * MIN_IN_HOUR)
                in Inr (Some (fl (fl (weight_transf + sq_speed_by_h_w) * duration_in_min))))))"
| "ft_get_spent_calories_rnd fl (Swimming a d w lp cp) =
     (case ft_get_mean_speed_rnd fl (Swimming a d w lp cp) of
        Inl e \<Rightarrow> Inl e
      | Inr s \<Rightarrow>
          (let mean_speed_transf = fl (fl (s + fl 1.1) * 2)
           in Inr (Some (fl (mean_speed_transf * w)))))"

definition ft_show_training_info_rnd :: "rounding \<Rightarrow> training \<Rightarrow> error + InfoMessage" where
  "ft_show_training_info_rnd fl t =
     (case ft_get_mean_speed_rnd fl t of
        Inl e \<Rightarrow> Inl e
      | Inr s \<Rightarrow>
          (case ft_get_spent_calories_rnd fl t of
             Inl e \<Rightarrow> Inl e
           | Inr c \<Rightarrow>
               Inr \<lparr>training_type = class_name t, duration = duration_of t,
                    distance = ft_get_distance_rnd fl t, speed = s, calories = c\<rparr>))"

subsection \<open>\<^verbatim>\<open>homework.py\<close>, rounded\<close>

fun hw_get_distance_rnd :: "rounding \<Rightarrow> training \<Rightarrow> rat" where
  "hw_get_distance_rnd fl (Swimming a d w lp cp) = fl (fl (a * fl 1.38) / M_IN_KM)"
| "hw_get_distance_rnd fl t = fl (fl (action t * fl 0.65) / M_IN_KM)"

fun hw_get_mean_speed_rnd :: "rounding \<Rightarrow> training \<Rightarrow> error + rat" where
  "hw_get_mean_speed_rnd fl (Swimming a d w lp cp) =
     rnd_truediv fl (fl (fl (lp * cp) / M_IN_KM)) d"
| "hw_get_mean_speed_rnd fl t = rnd_truediv fl (hw_get_distance_rnd fl t) (duration_of t)"

fun hw_get_spent_calories_rnd :: "rounding \<Rightarrow> training \<Rightarrow> error + rat option" where
  "hw_get_spent_calories_rnd fl (Training a d w) = Inr None"
| "hw_get_spent_calories_rnd fl (Running a d w) =
     (case hw_get_mean_speed_rnd fl (Running a d w) of
        Inl e \<Rightarrow> Inl e
      | Inr s \<Rightarrow>
          Inr (Some (fl (fl (fl (fl (fl (fl (18 * s) - 20) * w) / M_IN_KM) * d) * MIN_IN_HOUR))))"
| "hw_get_spent_calories_rnd fl (SportsWalking a d w h) =
     (case hw_get_mean_speed_rnd fl (SportsWalking a d w h) of
        Inl e \<Rightarrow> Inl e
      | Inr s \<Rightarrow>
          (case rnd_floordiv fl (fl (s ^ 2)) h of
             Inl e \<Rightarrow> Inl e
           | Inr q \<Rightarrow>
               Inr (Some (fl (fl (fl (fl (fl 0.035 * w) + fl (fl (q * fl 0.029) * w)) * d)
                               * MIN_IN_HOUR)))))"
| "hw_get_spent_calories_rnd fl (Swimming a d w lp cp) =
     (case hw_get_mean_speed_rnd fl (Swimming a d w lp cp) of
        Inl e \<Rightarrow> Inl e
      | Inr s \<Rightarrow> Inr (Some (fl (fl (fl (s + fl 1.1) * 2) * w))))"

definition hw_show_training_info_rnd :: "rounding \<Rightarrow> training \<Rightarrow> error + InfoMessage" where
  "hw_show_training_info_rnd fl t =
     (case hw_get_mean_speed_rnd fl t of
        Inl e \<Rightarrow> Inl e
      | Inr s \<Rightarrow>
          (case hw_get_spent_calories_rnd fl t of
             Inl e \<Rightarrow> Inl e
           | Inr c \<Rightarrow>
               Inr \<lparr>training_type = class_name t, duration = duration_of t,
                    distance = hw_get_distance_rnd fl t, speed = s, calories = c\<rparr>))"

subsection \<open>Rounding to a double\<close>

text \<open>
  \<open>ilog2 x\<close> is the exponent of the positive rational \<open>x\<close>: the integer \<open>k\<close> with
  \<open>2\<^sup>k \<le> x < 2\<^sup>k\<^sup>+\<^sup>1\<close>. It is found from the bit lengths of numerator and denominator,
  which leave two candidates.
\<close>

definition ilog2 :: "rat \<Rightarrow> int" where
  "ilog2 x =
     (let (p, q) = quotient_of x;
          k = bitlen p - bitlen q
      in if 2 powi k \<le> x then k else k - 1)"

text \<open>Rounding to the nearest integer, a tie going to the even neighbour.\<close>

definition round_half_even :: "rat \<Rightarrow> int" where
  "round_half_even x =
     (let n = \<lfloor>x\<rfloor>;
          r = x - of_int n
      in if r < 1 / 2 then n
         else if 1 / 2 < r then n + 1
         else if even n then n else n + 1)"

text \<open>
  \<open>b64 x\<close>: the number with a significand of 53 bits nearest to \<open>x\<close>, ties to even
  (the default rounding of binary64), with no bound on the exponent. The significand of
  \<open>x\<close> is scaled into \<open>[2\<^sup>5\<^sup>2, 2\<^sup>5\<^sup>3)\<close>, rounded to an integer and scaled back.
\<close>

definition b64 :: rounding where
  "b64 x =
     (if x = 0 then 0
      else (let e = ilog2 \<bar>x\<bar> - 52
            in sgn x * of_int (round_half_even (\<bar>x\<bar> / 2 powi e)) * 2 powi e))"

text \<open>
  The height of a \<^verbatim>\<open>SportsWalking\<close> record is a divisor of its calorie formula; the
  other classes have no such field.
\<close>

fun positive_height :: "training \<Rightarrow> bool" where
  "positive_height (SportsWalking a d w h) = (0 < h)"
| "positive_height t = True"

section \<open>Properties\<close>

subsection \<open>Distance of a swimming record\<close>

text \<open>
  Claim C1 says that the distance of a \<^verbatim>\<open>Swimming\<close> record is
  \<open>pool_length_m * pool_lengths_completed / 1000\<close> and that the stroke-based formula is
  not used. In both files the distance of a swimming record is the stroke-based formula
  with the stroke length 1.38: \<^verbatim>\<open>fitness_tracker.py\<close> inherits
  \<^verbatim>\<open>Training.get_distance\<close> and redefines \<^verbatim>\<open>LEN_STEP\<close>, \<^verbatim>\<open>homework.py\<close> overrides the
  method with that expression. For the sample reading of the specification the distance
  is 0.9936 km, not 1 km.
\<close>

theorem swimming_distance_not_pool_based:
  "ft_get_distance (Swimming 720 1 80 25 40) = 0.9936
   \<and> hw_get_distance (Swimming 720 1 80 25 40) = 0.9936
   \<and> (25 * 40 / 1000 :: rat) = 1
   \<and> ft_get_distance (Swimming 720 1 80 25 40) \<noteq> 25 * 40 / 1000
   \<and> hw_get_distance (Swimming 720 1 80 25 40) \<noteq> 25 * 40 / 1000"
  by (simp add: ft_get_distance_def M_IN_KM_def)

text \<open>
  Claim C1 as amended: for every \<^verbatim>\<open>Swimming\<close> record the distance is
  \<open>action * 1.38 / 1000\<close>, in both files; the pool length and the number of lengths
  enter the mean speed only, which is \<open>length_pool * count_pool / 1000 / duration\<close>.
\<close>

theorem swimming_distance_is_stroke_based:
  "ft_get_distance (Swimming a d w lp cp) = a * 1.38 / 1000
   \<and> hw_get_distance (Swimming a d w lp cp) = a * 1.38 / 1000
   \<and> ft_get_mean_speed (Swimming a d w lp cp) = py_truediv (lp * cp / 1000) d
   \<and> hw_get_mean_speed (Swimming a d w lp cp) = py_truediv (lp * cp / 1000) d"
  by (simp add: ft_get_distance_def M_IN_KM_def)

subsection \<open>Calories of the base class\<close>

text \<open>
  Claim C2 says that \<^verbatim>\<open>get_spent_calories\<close> on a record of the base class fails and
  does not return a default such as a null value. The body of the method is \<^verbatim>\<open>pass\<close>
  in both files: the call returns \<^verbatim>\<open>None\<close> and raises nothing.
\<close>

theorem base_calories_does_not_fail:
  "ft_get_spent_calories (Training 9000 1 75) = Inr None
   \<and> hw_get_spent_calories (Training 9000 1 75) = Inr None
   \<and> \<not> isl (ft_get_spent_calories (Training 9000 1 75))
   \<and> \<not> isl (hw_get_spent_calories (Training 9000 1 75))"
  by simp

text \<open>
  Claim C2 as amended: on every record of the base class \<^verbatim>\<open>get_spent_calories\<close>
  returns \<^verbatim>\<open>None\<close> without raising, and \<^verbatim>\<open>show_training_info\<close> of such a record with
  a nonzero duration returns a report whose calories are \<^verbatim>\<open>None\<close>.
\<close>

theorem base_calories_returns_None:
  "ft_get_spent_calories (Training a d w) = Inr None
   \<and> hw_get_spent_calories (Training a d w) = Inr None
   \<and> (d \<noteq> 0 \<longrightarrow>
        ft_show_training_info (Training a d w) =
          Inr \<lparr>training_type = ''Training'', duration = d, distance = a * 0.65 / 1000,
               speed = a * 0.65 / 1000 / d, calories = None\<rparr>
      \<and> hw_show_training_info (Training a d w) =
          Inr \<lparr>training_type = ''Training'', duration = d, distance = a * 0.65 / 1000,
               speed = a * 0.65 / 1000 / d, calories = None\<rparr>)"
  by (simp add: ft_show_training_info_def hw_show_training_info_def ft_get_distance_def
      py_truediv_def M_IN_KM_def)

theorem base_calories_returns_None_witness:
  "(1::rat) \<noteq> 0
   \<and> ft_show_training_info (Training 9000 1 75) =
       Inr \<lparr>training_type = ''Training'', duration = 1, distance = 9000 * 0.65 / 1000,
            speed = 9000 * 0.65 / 1000 / 1, calories = None\<rparr>
   \<and> hw_show_training_info (Training 9000 1 75) =
       Inr \<lparr>training_type = ''Training'', duration = 1, distance = 9000 * 0.65 / 1000,
            speed = 9000 * 0.65 / 1000 / 1, calories = None\<rparr>"
proof -
  have h: "(1::rat) \<noteq> 0"
    by simp
  note r = base_calories_returns_None [of 9000 1 75, THEN conjunct2, THEN conjunct2, THEN mp, OF h]
  from h r show ?thesis
    by (rule conjI)
qed

subsection \<open>Unknown activity codes\<close>

text \<open>
  In \<^verbatim>\<open>fitness_tracker.py\<close> a code outside the dictionary raises \<^verbatim>\<open>KeyError\<close> with
  the code in its message, before any constructor is called. In \<^verbatim>\<open>homework.py\<close> the
  same input reaches \<^verbatim>\<open>return training\<close> with the local unassigned.
\<close>

lemma ft_read_package_unknown:
  "workout_type \<notin> {''SWM'', ''RUN'', ''WLK''} \<Longrightarrow>
     ft_read_package workout_type data = Inl (KeyError workout_type)"
  by (simp add: ft_read_package_def ALL_ACTIVITIES_def)

lemma hw_read_package_unknown:
  "workout_type \<notin> {''SWM'', ''RUN'', ''WLK''} \<Longrightarrow>
     hw_read_package workout_type data = Inl (UnboundLocalError ''training'')"
  by (simp add: hw_read_package_def ALL_ACTIVITIES_def)

text \<open>
  Claim C3: for every code outside SWM, RUN, WLK the dispatcher fails with an
  unrecognized-activity-type error that identifies the code, and no record is
  constructed. At the code XYZ with the readings 15000, 1, 75 the dispatcher of
  \<^verbatim>\<open>homework.py\<close> raises \<^verbatim>\<open>UnboundLocalError\<close> on its local variable, which does not
  mention the code; the dispatcher of \<^verbatim>\<open>fitness_tracker.py\<close> raises the \<^verbatim>\<open>KeyError\<close>
  that carries it.
\<close>

theorem homework_read_package_unknown_code:
  "hw_read_package ''XYZ'' [15000, 1, 75] = Inl (UnboundLocalError ''training'')
   \<and> ft_read_package ''XYZ'' [15000, 1, 75] = Inl (KeyError ''XYZ'')"
  by (simp add: hw_read_package_def ft_read_package_def ALL_ACTIVITIES_def)

subsection \<open>Calorie formulas\<close>



text \<open>The value of the sample: the quotient is below 1, its floor is 0.\<close>

lemma race_walking_sample_value:
  "ft_get_spent_calories (SportsWalking 9000 1 75 180) = Inr (Some 157.5)
   \<and> hw_get_spent_calories (SportsWalking 9000 1 75 180) = Inr (Some 157.5)"
proof -
  have "\<lfloor>(1521::rat) / 8000\<rfloor> = 0"
    by (simp add: floor_eq_iff)
  then show ?thesis
    by (simp add: ft_get_distance_def py_truediv_def py_floordiv_def M_IN_KM_def MIN_IN_HOUR_def
        power2_eq_square)
qed

text \<open>
  Claim C5 gives the calories of a \<^verbatim>\<open>Running\<close> record as
  \<open>(18 * speed - 20) * weight / 1000 * duration * 60\<close> and, for the readings 15000, 1,
  75, the value of \<open>(18 * 9.75 - 20) * 75 / 1000 * 60\<close> as about 719.55. The formula is
  the code's; the value of that expression, and of the code, is 699.75, which is 19.8
  away from 719.55.
\<close>

theorem running_sample_calories_not_719_55:
  "ft_get_spent_calories (Running 15000 1 75) = Inr (Some 699.75)
   \<and> hw_get_spent_calories (Running 15000 1 75) = Inr (Some 699.75)
   \<and> (18 * 9.75 - 20) * 75 / 1000 * 60 = (699.75::rat)
   \<and> \<bar>699.75 - 719.55\<bar> = (19.8::rat)"
  by (simp add: ft_get_distance_def py_truediv_def M_IN_KM_def MIN_IN_HOUR_def)

text \<open>
  Claim C5 as amended: for every \<^verbatim>\<open>Running\<close> record with positive duration the
  calories are \<open>(18 * speed - 20) * weight / 1000 * duration * 60\<close> with \<open>speed\<close> the mean
  speed \<open>action * 0.65 / 1000 / duration\<close>; for the readings 15000, 1, 75 the distance
  is 9.75, the mean speed is 9.75 and the calories are
  \<open>(18 * 9.75 - 20) * 75 / 1000 * 60 = 699.75\<close>. Both files.
\<close>

theorem running_calories:
  assumes "0 < d"
  shows "(ft_get_mean_speed (Running a d w) = Inr (a * 0.65 / 1000 / d)
    \<and> hw_get_mean_speed (Running a d w) = Inr (a * 0.65 / 1000 / d)
    \<and> ft_get_spent_calories (Running a d w) =
        Inr (Some ((18 * (a * 0.65 / 1000 / d) - 20) * w / 1000 * d * 60))
    \<and> hw_get_spent_calories (Running a d w) =
        Inr (Some ((18 * (a * 0.65 / 1000 / d) - 20) * w / 1000 * d * 60)))
    \<and> (ft_get_distance (Running 15000 1 75) = 9.75
    \<and> hw_get_distance (Running 15000 1 75) = 9.75
    \<and> ft_get_mean_speed (Running 15000 1 75) = Inr 9.75
    \<and> hw_get_mean_speed (Running 15000 1 75) = Inr 9.75
    \<and> ft_get_spent_calories (Running 15000 1 75) = Inr (Some ((18 * 9.75 - 20) * 75 / 1000 * 60))
    \<and> hw_get_spent_calories (Running 15000 1 75) = Inr (Some ((18 * 9.75 - 20) * 75 / 1000 * 60))
    \<and> (18 * 9.75 - 20) * 75 / 1000 * 60 = (699.75::rat))"
proof (rule conjI)
  show "ft_get_mean_speed (Running a d w) = Inr (a * 0.65 / 1000 / d)
    \<and> hw_get_mean_speed (Running a d w) = Inr (a * 0.65 / 1000 / d)
    \<and> ft_get_spent_calories (Running a d w) =
        Inr (Some ((18 * (a * 0.65 / 1000 / d) - 20) * w / 1000 * d * 60))
    \<and> hw_get_spent_calories (Running a d w) =
        Inr (Some ((18 * (a * 0.65 / 1000 / d) - 20) * w / 1000 * d * 60))"
    using assms
    by (simp add: ft_get_distance_def py_truediv_def M_IN_KM_def MIN_IN_HOUR_def)
next
  show "ft_get_distance (Running 15000 1 75) = 9.75
    \<and> hw_get_distance (Running 15000 1 75) = 9.75
    \<and> ft_get_mean_speed (Running 15000 1 75) = Inr 9.75
    \<and> hw_get_mean_speed (Running 15000 1 75) = Inr 9.75
    \<and> ft_get_spent_calories (Running 15000 1 75) = Inr (Some ((18 * 9.75 - 20) * 75 / 1000 * 60))
    \<and> hw_get_spent_calories (Running 15000 1 75) = Inr (Some ((18 * 9.75 - 20) * 75 / 1000 * 60))
    \<and> (18 * 9.75 - 20) * 75 / 1000 * 60 = (699.75::rat)"
    by (simp add: ft_get_distance_def py_truediv_def M_IN_KM_def MIN_IN_HOUR_def)
qed

theorem running_calories_witness:
  "(0::rat) < 1
   \<and> ft_get_spent_calories (Running 15000 1 75) =
       Inr (Some ((18 * (15000 * 0.65 / 1000 / 1) - 20) * 75 / 1000 * 1 * 60))
   \<and> hw_get_spent_calories (Running 15000 1 75) =
       Inr (Some ((18 * (15000 * 0.65 / 1000 / 1) - 20) * 75 / 1000 * 1 * 60))"
proof -
  have h: "(0::rat) < 1"
    by simp
  from running_calories [OF h, of 15000 75] h show ?thesis
    by (elim conjE) (intro conjI; assumption)
qed

text \<open>
  Claim C6: for every \<^verbatim>\<open>Swimming\<close> record with positive duration the calories are
  \<open>(speed + 1.1) * 2 * weight\<close> with \<open>speed\<close> the mean speed
  \<open>length_pool * count_pool / 1000 / duration\<close>; for the readings 720, 1, 80, 25, 40
  the mean speed is 1.0 and the calories are 336.0. Both files.
\<close>

theorem swimming_calories:
  assumes "0 < d"
  shows "(ft_get_mean_speed (Swimming a d w lp cp) = Inr (lp * cp / 1000 / d)
    \<and> hw_get_mean_speed (Swimming a d w lp cp) = Inr (lp * cp / 1000 / d)
    \<and> ft_get_spent_calories (Swimming a d w lp cp) =
        Inr (Some ((lp * cp / 1000 / d + 1.1) * 2 * w))
    \<and> hw_get_spent_calories (Swimming a d w lp cp) =
        Inr (Some ((lp * cp / 1000 / d + 1.1) * 2 * w)))
    \<and> (ft_get_mean_speed (Swimming 720 1 80 25 40) = Inr 1.0
    \<and> hw_get_mean_speed (Swimming 720 1 80 25 40) = Inr 1.0
    \<and> ft_get_spent_calories (Swimming 720 1 80 25 40) = Inr (Some 336.0)
    \<and> hw_get_spent_calories (Swimming 720 1 80 25 40) = Inr (Some 336.0))"
proof (rule conjI)
  show "ft_get_mean_speed (Swimming a d w lp cp) = Inr (lp * cp / 1000 / d)
    \<and> hw_get_mean_speed (Swimming a d w lp cp) = Inr (lp * cp / 1000 / d)
    \<and> ft_get_spent_calories (Swimming a d w lp cp) =
        Inr (Some ((lp * cp / 1000 / d + 1.1) * 2 * w))
    \<and> hw_get_spent_calories (Swimming a d w lp cp) =
        Inr (Some ((lp * cp / 1000 / d + 1.1) * 2 * w))"
    using assms by (simp add: py_truediv_def M_IN_KM_def)
next
  show "ft_get_mean_speed (Swimming 720 1 80 25 40) = Inr 1.0
    \<and> hw_get_mean_speed (Swimming 720 1 80 25 40) = Inr 1.0
    \<and> ft_get_spent_calories (Swimming 720 1 80 25 40) = Inr (Some 336.0)
    \<and> hw_get_spent_calories (Swimming 720 1 80 25 40) = Inr (Some 336.0)"
    by (simp add: py_truediv_def M_IN_KM_def)
qed

theorem swimming_calories_witness:
  "(0::rat) < 1
   \<and> ft_get_spent_calories (Swimming 720 1 80 25 40) =
       Inr (Some ((25 * 40 / 1000 / 1 + 1.1) * 2 * 80))
   \<and> hw_get_spent_calories (Swimming 720 1 80 25 40) =
       Inr (Some ((25 * 40 / 1000 / 1 + 1.1) * 2 * 80))"
proof -
  have h: "(0::rat) < 1"
    by simp
  from swimming_calories [OF h, of 720 80 25 40] h show ?thesis
    by (elim conjE) (intro conjI; assumption)
qed

subsection \<open>Zero duration\<close>



text \<open>The rounding of the arithmetic plays no part in it.\<close>

lemma mean_speed_rnd_zero_duration:
  assumes "duration_of t = 0"
  shows "ft_get_mean_speed_rnd fl t = Inl ZeroDivisionError
       \<and> hw_get_mean_speed_rnd fl t = Inl ZeroDivisionError"
  using assms by (cases t) (simp_all add: rnd_truediv_def)

subsection \<open>Calling the summary twice\<close>



section \<open>Properties of the rounded arithmetic\<close>

subsection \<open>With the identity as rounding, the exact functions\<close>

lemma rnd_identity:
  "ft_get_distance_rnd (\<lambda>x. x) t = ft_get_distance t"
  "hw_get_distance_rnd (\<lambda>x. x) t = hw_get_distance t"
  "ft_get_mean_speed_rnd (\<lambda>x. x) t = ft_get_mean_speed t"
  "hw_get_mean_speed_rnd (\<lambda>x. x) t = hw_get_mean_speed t"
  "ft_get_spent_calories_rnd (\<lambda>x. x) t = ft_get_spent_calories t"
  "hw_get_spent_calories_rnd (\<lambda>x. x) t = hw_get_spent_calories t"
  by (cases t; simp add: ft_get_distance_rnd_def ft_get_distance_def rnd_truediv_def
      py_truediv_def rnd_floordiv_def py_floordiv_def)+

lemma show_training_info_rnd_identity:
  "ft_show_training_info_rnd (\<lambda>x. x) t = ft_show_training_info t"
  "hw_show_training_info_rnd (\<lambda>x. x) t = hw_show_training_info t"
  by (simp_all add: ft_show_training_info_rnd_def ft_show_training_info_def
      hw_show_training_info_rnd_def hw_show_training_info_def rnd_identity cong: sum.case_cong)

subsection \<open>The two dispatchers succeed together\<close>

lemma construct_cases:
  assumes "construct c data = Inr t"
  obtains (run) a d w where "c = RunningClass" "data = [a, d, w]" "t = Running a d w"
  | (wlk) a d w h where "c = SportsWalkingClass" "data = [a, d, w, h]" "t = SportsWalking a d w h"
  | (swm) a d w lp cp where "c = SwimmingClass" "data = [a, d, w, lp, cp]" "t = Swimming a d w lp cp"
  using assms by (elim construct.elims) simp_all

lemma ft_read_package_cases:
  assumes "ft_read_package workout_type data = Inr t"
  obtains (run) a d w where "workout_type = ''RUN''" "data = [a, d, w]" "t = Running a d w"
  | (wlk) a d w h where "workout_type = ''WLK''" "data = [a, d, w, h]" "t = SportsWalking a d w h"
  | (swm) a d w lp cp where "workout_type = ''SWM''" "data = [a, d, w, lp, cp]" "t = Swimming a d w lp cp"
proof -
  from assms obtain c where c: "ALL_ACTIVITIES workout_type = Some c" and t: "construct c data = Inr t"
    by (auto simp add: ft_read_package_def split: option.splits)
  from t show thesis
  proof (cases rule: construct_cases)
    case (run a d w)
    with c have "workout_type = ''RUN''"
      by (simp add: ALL_ACTIVITIES_def split: if_splits)
    with run show thesis by (intro that(1))
  next
    case (wlk a d w h)
    with c have "workout_type = ''WLK''"
      by (simp add: ALL_ACTIVITIES_def split: if_splits)
    with wlk show thesis by (intro that(2))
  next
    case (swm a d w lp cp)
    with c have "workout_type = ''SWM''"
      by (simp add: ALL_ACTIVITIES_def split: if_splits)
    with swm show thesis by (intro that(3))
  qed
qed

lemma read_package_agree:
  assumes "ft_read_package workout_type data = Inr t"
  shows "hw_read_package workout_type data = Inr t"
  using assms
  by (auto simp add: ft_read_package_def hw_read_package_def split: option.splits)

subsection \<open>Rounding to a double is monotone and accurate to half a unit in the last place\<close>

lemma bitlen_powi_bounds:
  assumes "0 < p"
  shows "2 powi (bitlen p - 1) \<le> (of_int p :: rat)" and "(of_int p :: rat) < 2 powi (bitlen p)"
proof -
  from assms have b: "1 \<le> bitlen p"
    by (simp add: bitlen_alt_def)
  from bitlen_bounds [OF assms] have lo: "2 ^ nat (bitlen p - 1) \<le> p" and hi: "p < 2 ^ nat (bitlen p)"
    by simp_all
  from lo have "(of_int (2 ^ nat (bitlen p - 1)) :: rat) \<le> of_int p"
    by (simp only: of_int_le_iff)
  with b show "2 powi (bitlen p - 1) \<le> (of_int p :: rat)"
    by (simp add: power_int_nonneg_exp)
  from hi have "(of_int p :: rat) < of_int (2 ^ nat (bitlen p))"
    by (simp only: of_int_less_iff)
  with b show "(of_int p :: rat) < 2 powi (bitlen p)"
    by (simp add: power_int_nonneg_exp)
qed

lemma ilog2_bounds:
  assumes "0 < x"
  shows "2 powi (ilog2 x) \<le> x \<and> x < 2 powi (ilog2 x + 1)"
proof -
  obtain p q where pq: "quotient_of x = (p, q)"
    by (cases "quotient_of x")
  then have q: "0 < q" and x: "x = of_int p / of_int q"
    by (simp_all add: quotient_of_denom_pos quotient_of_div)
  with assms have p: "0 < p"
    by (simp add: zero_less_divide_iff)
  define k where "k = bitlen p - bitlen q"
  have "of_int p / of_int q < (2::rat) powi (bitlen p) / 2 powi (bitlen q - 1)"
    using p q bitlen_powi_bounds [OF p] bitlen_powi_bounds [OF q]
    by (intro frac_less) simp_all
  then have hi: "x < 2 powi (k + 1)"
    by (simp add: x k_def power_int_diff [symmetric] algebra_simps)
  have "(2::rat) powi (bitlen p - 1) / 2 powi (bitlen q) < of_int p / of_int q"
    using p q bitlen_powi_bounds [OF p] bitlen_powi_bounds [OF q]
    by (intro frac_less2) simp_all
  then have lo: "2 powi (k - 1) < x"
    by (simp add: x k_def power_int_diff [symmetric] algebra_simps)
  have il: "ilog2 x = (if 2 powi k \<le> x then k else k - 1)"
    by (simp add: ilog2_def pq k_def Let_def)
  show ?thesis
  proof (cases "2 powi k \<le> x")
    case True
    with hi il show ?thesis by simp
  next
    case False
    with lo il show ?thesis by simp
  qed
qed

lemma ilog2_mono:
  assumes "0 < x" and "x \<le> y"
  shows "ilog2 x \<le> ilog2 y"
proof (rule ccontr)
  assume "\<not> ilog2 x \<le> ilog2 y"
  then have "ilog2 y + 1 \<le> ilog2 x"
    by simp
  then have "(2::rat) powi (ilog2 y + 1) \<le> 2 powi (ilog2 x)"
    by (intro power_int_increasing) simp_all
  also have "\<dots> \<le> x"
    using ilog2_bounds [OF assms(1)] by simp
  also note assms(2)
  also have "y < 2 powi (ilog2 y + 1)"
    using ilog2_bounds [of y] assms by simp
  finally show False
    by simp
qed

lemma round_half_even_cases:
  "round_half_even x = \<lfloor>x\<rfloor> \<or> round_half_even x = \<lfloor>x\<rfloor> + 1"
  by (simp add: round_half_even_def Let_def)

lemma round_half_even_of_int [simp]: "round_half_even (of_int n) = n"
  by (simp add: round_half_even_def Let_def)

lemma round_half_even_mono:
  assumes "x \<le> y"
  shows "round_half_even x \<le> round_half_even y"
proof (cases "\<lfloor>x\<rfloor> < \<lfloor>y\<rfloor>")
  case True
  have "round_half_even x \<le> \<lfloor>x\<rfloor> + 1"
    using round_half_even_cases [of x] by auto
  also have "\<dots> \<le> \<lfloor>y\<rfloor>"
    using True by simp
  also have "\<dots> \<le> round_half_even y"
    using round_half_even_cases [of y] by auto
  finally show ?thesis .
next
  case False
  with assms have eq: "\<lfloor>x\<rfloor> = \<lfloor>y\<rfloor>"
    using floor_mono [OF assms] by simp
  with assms have "x - of_int \<lfloor>x\<rfloor> \<le> y - of_int \<lfloor>y\<rfloor>"
    by simp
  with eq show ?thesis
    by (auto simp add: round_half_even_def Let_def)
qed


lemma b64_positive:
  assumes "0 < x"
  shows "b64 x = of_int (round_half_even (x / 2 powi (ilog2 x - 52))) * 2 powi (ilog2 x - 52)"
  using assms by (simp add: b64_def Let_def)

lemma b64_minus: "b64 (- x) = - b64 x"
  by (simp add: b64_def Let_def)

lemma significand_bounds:
  assumes "0 < x"
  shows "2 ^ 52 \<le> x / 2 powi (ilog2 x - 52)" and "x / 2 powi (ilog2 x - 52) < 2 ^ 53"
proof -
  have e: "(0::rat) < 2 powi (ilog2 x - 52)"
    by simp
  have "(2::rat) ^ 52 * 2 powi (ilog2 x - 52) = 2 powi (ilog2 x)"
    by (simp add: power_int_diff)
  with ilog2_bounds [OF assms] have "2 ^ 52 * 2 powi (ilog2 x - 52) \<le> x"
    by simp
  with e show "2 ^ 52 \<le> x / 2 powi (ilog2 x - 52)"
    by (simp add: pos_le_divide_eq)
  have "(2::rat) ^ 53 * 2 powi (ilog2 x - 52) = 2 powi (ilog2 x + 1)"
    by (simp add: power_int_diff power_int_add)
  with ilog2_bounds [OF assms] have "x < 2 ^ 53 * 2 powi (ilog2 x - 52)"
    by simp
  with e show "x / 2 powi (ilog2 x - 52) < 2 ^ 53"
    by (simp add: pos_divide_less_eq)
qed

lemma b64_binade:
  assumes "0 < x"
  shows "2 powi (ilog2 x) \<le> b64 x" and "b64 x \<le> 2 powi (ilog2 x + 1)"
proof -
  let ?e = "ilog2 x - 52"
  let ?m = "x / 2 powi ?e"
  have "round_half_even (of_int (2 ^ 52)) \<le> round_half_even ?m"
    using significand_bounds(1) [OF assms] by (intro round_half_even_mono) simp
  then have lo: "(2::rat) ^ 52 \<le> of_int (round_half_even ?m)"
    by (simp only: round_half_even_of_int) (metis of_int_le_iff of_int_numeral of_int_power)
  have "round_half_even ?m \<le> round_half_even (of_int (2 ^ 53))"
    using significand_bounds(2) [OF assms] by (intro round_half_even_mono) simp
  then have hi: "of_int (round_half_even ?m) \<le> (2::rat) ^ 53"
    by (simp only: round_half_even_of_int) (metis of_int_le_iff of_int_numeral of_int_power)
  have "(2::rat) powi (ilog2 x) = 2 ^ 52 * 2 powi ?e"
    by (simp add: power_int_diff)
  also have "\<dots> \<le> of_int (round_half_even ?m) * 2 powi ?e"
    using lo by (intro mult_right_mono) simp_all
  finally show "2 powi (ilog2 x) \<le> b64 x"
    by (simp add: b64_positive [OF assms])
  have "of_int (round_half_even ?m) * 2 powi ?e \<le> (2::rat) ^ 53 * 2 powi ?e"
    using hi by (intro mult_right_mono) simp_all
  also have "\<dots> = 2 powi (ilog2 x + 1)"
    by (simp add: power_int_diff power_int_add)
  finally show "b64 x \<le> 2 powi (ilog2 x + 1)"
    by (simp add: b64_positive [OF assms])
qed

lemma b64_pos_pos:
  assumes "0 < x"
  shows "0 < b64 x"
proof -
  have "(0::rat) < 2 powi (ilog2 x)"
    by simp
  also note b64_binade(1) [OF assms]
  finally show ?thesis .
qed

lemma b64_mono_pos:
  assumes "0 < x" and "x \<le> y"
  shows "b64 x \<le> b64 y"
proof -
  from assms have y: "0 < y"
    by simp
  have k: "ilog2 x \<le> ilog2 y"
    using assms by (rule ilog2_mono)
  show ?thesis
  proof (cases "ilog2 x = ilog2 y")
    case True
    let ?e = "ilog2 y - 52"
    have "x / 2 powi ?e \<le> y / 2 powi ?e"
      using assms(2) by (intro divide_right_mono) simp_all
    then have "round_half_even (x / 2 powi ?e) \<le> round_half_even (y / 2 powi ?e)"
      by (rule round_half_even_mono)
    then have "(of_int (round_half_even (x / 2 powi ?e)) :: rat) * 2 powi ?e
        \<le> of_int (round_half_even (y / 2 powi ?e)) * 2 powi ?e"
      by (intro mult_right_mono) simp_all
    then show ?thesis
      by (simp add: b64_positive [OF assms(1)] b64_positive [OF y] True)
  next
    case False
    with k have "ilog2 x + 1 \<le> ilog2 y"
      by simp
    then have "(2::rat) powi (ilog2 x + 1) \<le> 2 powi (ilog2 y)"
      by (intro power_int_increasing) simp_all
    with b64_binade(2) [OF assms(1)] b64_binade(1) [OF y] show ?thesis
      by simp
  qed
qed

lemma b64_zero [simp]: "b64 0 = 0"
  by (simp add: b64_def)

lemma b64_mono:
  assumes "x \<le> y"
  shows "b64 x \<le> b64 y"
proof -
  consider "0 < x" | "x = 0" "y = 0" | "x = 0" "0 < y" | "x < 0" "0 \<le> y" | "x < 0" "y < 0"
    using assms by linarith
  then show ?thesis
  proof cases
    case 1
    then show ?thesis using assms by (rule b64_mono_pos)
  next
    case 2
    then show ?thesis by simp
  next
    case 3
    then show ?thesis using b64_pos_pos [of y] by simp
  next
    case 4
    have "0 < b64 (- x)"
      using 4 by (intro b64_pos_pos) simp
    then have "b64 x < 0"
      by (simp add: b64_minus)
    moreover have "0 \<le> b64 y"
      using 4 b64_pos_pos [of y] by (cases "y = 0") simp_all
    ultimately show ?thesis by simp
  next
    case 5
    have "b64 (- y) \<le> b64 (- x)"
      using 5 assms by (intro b64_mono_pos) simp_all
    then show ?thesis
      by (simp add: b64_minus)
  qed
qed

lemma round_half_even_error:
  "\<bar>of_int (round_half_even x) - x\<bar> \<le> 1 / 2"
proof -
  have "of_int \<lfloor>x\<rfloor> \<le> x" and "x < of_int \<lfloor>x\<rfloor> + 1"
    by linarith+
  then show ?thesis
    by (auto simp add: round_half_even_def Let_def)
qed

lemma b64_error_pos:
  assumes "0 < x"
  shows "\<bar>b64 x - x\<bar> \<le> x / 2 ^ 53"
proof -
  define p :: rat where "p = 2 powi (ilog2 x - 52)"
  define m where "m = x / p"
  have p: "0 < p"
    by (simp add: p_def)
  then have x: "x = m * p"
    by (simp add: m_def)
  have "2 ^ 52 \<le> m"
    using significand_bounds(1) [OF assms] by (simp add: m_def p_def)
  then have half: "1 / 2 \<le> m / 2 ^ 53"
    by simp
  have "b64 x = of_int (round_half_even m) * p"
    by (simp add: b64_positive [OF assms] m_def p_def)
  then have "b64 x - x = (of_int (round_half_even m) - m) * p"
    by (simp add: x [symmetric] algebra_simps)
  then have "\<bar>b64 x - x\<bar> = \<bar>of_int (round_half_even m) - m\<bar> * p"
    using p by (simp add: abs_mult)
  also have "\<dots> \<le> 1 / 2 * p"
    using round_half_even_error [of m] p by (intro mult_right_mono) simp_all
  also have "\<dots> \<le> (m / 2 ^ 53) * p"
    using half p by (intro mult_right_mono) simp_all
  also have "\<dots> = x / 2 ^ 53"
    by (simp add: x)
  finally show ?thesis .
qed

lemma b64_error:
  "\<bar>b64 x - x\<bar> \<le> \<bar>x\<bar> / 2 ^ 53"
proof -
  consider "0 < x" | "x = 0" | "x < 0"
    by linarith
  then show ?thesis
  proof cases
    case 1
    then show ?thesis using b64_error_pos [of x] by simp
  next
    case 2
    then show ?thesis by simp
  next
    case 3
    then have "\<bar>b64 (- x) - (- x)\<bar> \<le> (- x) / 2 ^ 53"
      by (intro b64_error_pos) simp
    with 3 show ?thesis
      by (simp add: b64_minus abs_if split: if_splits)
  qed
qed

subsection \<open>Distance as a function of the step count\<close>

lemma step_distance_rnd_strict:
  assumes "0 \<le> a" and "a + 1 \<le> b" and "b \<le> 2 ^ 50"
  shows "b64 (b64 (a * b64 0.65) / M_IN_KM) < b64 (b64 (b * b64 0.65) / M_IN_KM)"
proof -
  define c :: rat where "c = b64 0.65"
  define xa xb where "xa = a * c" and "xb = b * c"
  define Xa Xb where "Xa = b64 xa" and "Xb = b64 xb"
  define Ya Yb where "Ya = b64 (Xa / 1000)" and "Yb = b64 (Xb / 1000)"
  have c: "0 < c"
    unfolding c_def by (rule b64_pos_pos) simp
  have xa: "0 \<le> xa"
    using assms c by (simp add: xa_def)
  have xb: "0 \<le> xb"
    using assms c by (simp add: xb_def)
  have "c * 1 \<le> c * (b - a)"
    using assms c by (intro mult_left_mono) simp_all
  then have gap: "c \<le> xb - xa"
    by (simp add: xa_def xb_def algebra_simps)
  have "c * (a + b) \<le> c * 2 ^ 51"
    using assms c by (intro mult_left_mono) simp_all
  then have total: "xa + xb \<le> c * 2 ^ 51"
    by (simp add: xa_def xb_def algebra_simps)
  have "\<bar>Xa - xa\<bar> \<le> \<bar>xa\<bar> / 2 ^ 53"
    unfolding Xa_def by (rule b64_error)
  with xa have eXa: "\<bar>Xa - xa\<bar> \<le> xa / 2 ^ 53"
    by (simp only: abs_of_nonneg)
  have "\<bar>Xb - xb\<bar> \<le> \<bar>xb\<bar> / 2 ^ 53"
    unfolding Xb_def by (rule b64_error)
  with xb have eXb: "\<bar>Xb - xb\<bar> \<le> xb / 2 ^ 53"
    by (simp only: abs_of_nonneg)
  have p53: "(2::rat) ^ 53 = 9007199254740992"
    by simp
  note uXa = abs_le_D1 [OF eXa, unfolded p53] and lXa = abs_le_D2 [OF eXa, unfolded p53]
    and uXb = abs_le_D1 [OF eXb, unfolded p53] and lXb = abs_le_D2 [OF eXb, unfolded p53]
  have Xa: "0 \<le> Xa / 1000"
    using lXa xa by linarith
  have Xb: "0 \<le> Xb / 1000"
    using lXb xb by linarith
  have "\<bar>Ya - Xa / 1000\<bar> \<le> \<bar>Xa / 1000\<bar> / 2 ^ 53"
    unfolding Ya_def by (rule b64_error)
  with Xa have eYa: "\<bar>Ya - Xa / 1000\<bar> \<le> Xa / 1000 / 2 ^ 53"
    by (simp only: abs_of_nonneg)
  have "\<bar>Yb - Xb / 1000\<bar> \<le> \<bar>Xb / 1000\<bar> / 2 ^ 53"
    unfolding Yb_def by (rule b64_error)
  with Xb have eYb: "\<bar>Yb - Xb / 1000\<bar> \<le> Xb / 1000 / 2 ^ 53"
    by (simp only: abs_of_nonneg)
  note uYa = abs_le_D1 [OF eYa, unfolded p53] and lYb = abs_le_D2 [OF eYb, unfolded p53]
  have p51: "(2::rat) ^ 51 = 2251799813685248"
    by simp
  have "Ya < Yb"
    using c gap total [unfolded p51] uXa lXa uXb lXb uYa lYb xa xb
    by linarith
  then show ?thesis
    by (simp add: Ya_def Yb_def Xa_def Xb_def xa_def xb_def c_def M_IN_KM_def)
qed

lemma step_distance_rnd_mono:
  assumes "a \<le> b"
  shows "b64 (b64 (a * b64 0.65) / M_IN_KM) \<le> b64 (b64 (b * b64 0.65) / M_IN_KM)"
proof -
  have "0 < b64 0.65"
    by (rule b64_pos_pos) simp
  with assms have "a * b64 0.65 \<le> b * b64 0.65"
    by (intro mult_right_mono) simp_all
  then have "b64 (a * b64 0.65) \<le> b64 (b * b64 0.65)"
    by (rule b64_mono)
  then have "b64 (a * b64 0.65) / M_IN_KM \<le> b64 (b * b64 0.65) / M_IN_KM"
    by (intro divide_right_mono) (simp_all add: M_IN_KM_def)
  then show ?thesis
    by (rule b64_mono)
qed

lemma large_step_distance_b64:
  "ft_get_distance_rnd b64 (Running 7000000000000001 1 75) = 4659200000000001 / 1024"
  "ft_get_distance_rnd b64 (Running 7000000000000002 1 75) = 4659200000000001 / 1024"
  "hw_get_distance_rnd b64 (Running 7000000000000001 1 75) = 4659200000000001 / 1024"
  "hw_get_distance_rnd b64 (Running 7000000000000002 1 75) = 4659200000000001 / 1024"
  by code_simp+

text \<open>
  Claim C8: for every step-based record (\<^verbatim>\<open>Running\<close> or \<^verbatim>\<open>SportsWalking\<close>) with the
  other inputs fixed, a strictly larger step count yields a strictly larger distance.
  Computed in doubles, as Python computes it, 7000000000000001 and 7000000000000002
  steps give the same distance: the products with 0.65 lie where neighbouring doubles
  are 1 apart and round to the same one. Both counts are below \<open>2\<^sup>5\<^sup>3\<close>, so they are
  doubles themselves.
\<close>

theorem step_distance_not_strict_in_doubles:
  "(7000000000000001::rat) < 7000000000000002
   \<and> ft_get_distance_rnd b64 (Running 7000000000000001 1 75)
       = ft_get_distance_rnd b64 (Running 7000000000000002 1 75)
   \<and> hw_get_distance_rnd b64 (Running 7000000000000001 1 75)
       = hw_get_distance_rnd b64 (Running 7000000000000002 1 75)
   \<and> \<not> ft_get_distance_rnd b64 (Running 7000000000000001 1 75)
       < ft_get_distance_rnd b64 (Running 7000000000000002 1 75)
   \<and> \<not> hw_get_distance_rnd b64 (Running 7000000000000001 1 75)
       < hw_get_distance_rnd b64 (Running 7000000000000002 1 75)"
  by (simp add: large_step_distance_b64 del: hw_get_distance_rnd.simps)

text \<open>
  Claim C8 as amended: for \<^verbatim>\<open>Running\<close> and \<^verbatim>\<open>SportsWalking\<close> records that differ in
  the step count only, \<open>a < b\<close>: in exact arithmetic the distance of \<open>b\<close> steps is
  strictly larger; computed in doubles it is never smaller, and it is strictly larger
  whenever the counts are at least 1 apart, not negative and at most \<open>2\<^sup>5\<^sup>0\<close>. Both
  files.
\<close>

theorem step_distance_monotone:
  assumes "a < b"
  shows "ft_get_distance (Running a d w) < ft_get_distance (Running b d w)
    \<and> ft_get_distance (SportsWalking a d w h) < ft_get_distance (SportsWalking b d w h)
    \<and> hw_get_distance (Running a d w) < hw_get_distance (Running b d w)
    \<and> hw_get_distance (SportsWalking a d w h) < hw_get_distance (SportsWalking b d w h)
    \<and> ft_get_distance_rnd b64 (Running a d w) \<le> ft_get_distance_rnd b64 (Running b d w)
    \<and> ft_get_distance_rnd b64 (SportsWalking a d w h)
        \<le> ft_get_distance_rnd b64 (SportsWalking b d w h)
    \<and> hw_get_distance_rnd b64 (Running a d w) \<le> hw_get_distance_rnd b64 (Running b d w)
    \<and> hw_get_distance_rnd b64 (SportsWalking a d w h)
        \<le> hw_get_distance_rnd b64 (SportsWalking b d w h)
    \<and> (0 \<le> a \<and> a + 1 \<le> b \<and> b \<le> 2 ^ 50 \<longrightarrow>
        ft_get_distance_rnd b64 (Running a d w) < ft_get_distance_rnd b64 (Running b d w)
      \<and> ft_get_distance_rnd b64 (SportsWalking a d w h)
          < ft_get_distance_rnd b64 (SportsWalking b d w h)
      \<and> hw_get_distance_rnd b64 (Running a d w) < hw_get_distance_rnd b64 (Running b d w)
      \<and> hw_get_distance_rnd b64 (SportsWalking a d w h)
          < hw_get_distance_rnd b64 (SportsWalking b d w h))"
proof -
  from assms have le: "a \<le> b"
    by simp
  from assms have "ft_get_distance (Running a d w) < ft_get_distance (Running b d w)"
    and "ft_get_distance (SportsWalking a d w h) < ft_get_distance (SportsWalking b d w h)"
    and "hw_get_distance (Running a d w) < hw_get_distance (Running b d w)"
    and "hw_get_distance (SportsWalking a d w h) < hw_get_distance (SportsWalking b d w h)"
    by (simp_all add: ft_get_distance_def M_IN_KM_def)
  moreover from step_distance_rnd_mono [OF le]
  have "ft_get_distance_rnd b64 (Running a d w) \<le> ft_get_distance_rnd b64 (Running b d w)"
    and "ft_get_distance_rnd b64 (SportsWalking a d w h)
        \<le> ft_get_distance_rnd b64 (SportsWalking b d w h)"
    and "hw_get_distance_rnd b64 (Running a d w) \<le> hw_get_distance_rnd b64 (Running b d w)"
    and "hw_get_distance_rnd b64 (SportsWalking a d w h)
        \<le> hw_get_distance_rnd b64 (SportsWalking b d w h)"
    by (simp_all add: ft_get_distance_rnd_def)
  moreover have "0 \<le> a \<and> a + 1 \<le> b \<and> b \<le> 2 ^ 50 \<longrightarrow>
        ft_get_distance_rnd b64 (Running a d w) < ft_get_distance_rnd b64 (Running b d w)
      \<and> ft_get_distance_rnd b64 (SportsWalking a d w h)
          < ft_get_distance_rnd b64 (SportsWalking b d w h)
      \<and> hw_get_distance_rnd b64 (Running a d w) < hw_get_distance_rnd b64 (Running b d w)
      \<and> hw_get_distance_rnd b64 (SportsWalking a d w h)
          < hw_get_distance_rnd b64 (SportsWalking b d w h)"
  proof
    assume "0 \<le> a \<and> a + 1 \<le> b \<and> b \<le> 2 ^ 50"
    then have "b64 (b64 (a * b64 0.65) / M_IN_KM) < b64 (b64 (b * b64 0.65) / M_IN_KM)"
      by (intro step_distance_rnd_strict) simp_all
    then show "ft_get_distance_rnd b64 (Running a d w) < ft_get_distance_rnd b64 (Running b d w)
      \<and> ft_get_distance_rnd b64 (SportsWalking a d w h)
          < ft_get_distance_rnd b64 (SportsWalking b d w h)
      \<and> hw_get_distance_rnd b64 (Running a d w) < hw_get_distance_rnd b64 (Running b d w)
      \<and> hw_get_distance_rnd b64 (SportsWalking a d w h)
          < hw_get_distance_rnd b64 (SportsWalking b d w h)"
      by (simp add: ft_get_distance_rnd_def)
  qed
  ultimately show ?thesis
    by (intro conjI)
qed

theorem step_distance_monotone_witness:
  "(15000::rat) < 15001
   \<and> ((0::rat) \<le> 15000 \<and> (15000::rat) + 1 \<le> 15001 \<and> (15001::rat) \<le> 2 ^ 50)
   \<and> ft_get_distance (Running 15000 1 75) < ft_get_distance (Running 15001 1 75)
   \<and> hw_get_distance (SportsWalking 15000 1 75 180) < hw_get_distance (SportsWalking 15001 1 75 180)
   \<and> ft_get_distance_rnd b64 (Running 15000 1 75) < ft_get_distance_rnd b64 (Running 15001 1 75)
   \<and> hw_get_distance_rnd b64 (SportsWalking 15000 1 75 180)
       < hw_get_distance_rnd b64 (SportsWalking 15001 1 75 180)"
proof -
  have h: "(15000::rat) < 15001"
    by simp
  have g: "(0::rat) \<le> 15000 \<and> (15000::rat) + 1 \<le> 15001 \<and> (15001::rat) \<le> 2 ^ 50"
    by simp
  note th = step_distance_monotone [OF h, of 1 75 180]
  note exact = th [THEN conjunct1] th [THEN conjunct2, THEN conjunct2, THEN conjunct2, THEN conjunct1]
  note strict = th [THEN conjunct2, THEN conjunct2, THEN conjunct2, THEN conjunct2,
      THEN conjunct2, THEN conjunct2, THEN conjunct2, THEN conjunct2, THEN mp, OF g]
  from h g exact strict show ?thesis
    by (elim conjE) (intro conjI; assumption)
qed

subsection \<open>The two files against each other\<close>

lemma exact_reports_agree:
  assumes "ft_read_package workout_type data = Inr t"
  shows "ft_show_training_info t = hw_show_training_info t"
  using assms
  by (cases rule: ft_read_package_cases)
    (simp_all add: ft_show_training_info_def hw_show_training_info_def ft_get_distance_def
      py_truediv_def py_floordiv_def M_IN_KM_def MIN_IN_HOUR_def)

lemma exact_report_exists:
  assumes "ft_read_package workout_type data = Inr t" and "0 < duration_of t"
    and "positive_height t"
  shows "\<exists>r. ft_show_training_info t = Inr r"
  using assms
  by (cases rule: ft_read_package_cases)
    (simp_all add: ft_show_training_info_def py_truediv_def py_floordiv_def)

lemma rounded_reports_agree:
  assumes "ft_read_package workout_type data = Inr t" and "0 < duration_of t"
    and "positive_height t"
  shows "\<exists>r r'. ft_show_training_info_rnd fl t = Inr r
          \<and> hw_show_training_info_rnd fl t = Inr r'
          \<and> training_type r' = training_type r \<and> duration r' = duration r
          \<and> distance r' = distance r \<and> speed r' = speed r
          \<and> (workout_type = ''SWM'' \<longrightarrow> calories r' = calories r)"
  using assms
  by (cases rule: ft_read_package_cases)
    (simp_all add: ft_show_training_info_rnd_def hw_show_training_info_rnd_def
      ft_get_distance_rnd_def rnd_truediv_def rnd_floordiv_def)

lemma run_distance_b64:
  "ft_get_distance_rnd b64 (Running 15000 3 75) = 9.75"
  "hw_get_distance_rnd b64 (Running 15000 3 75) = 9.75"
  by code_simp+

lemma run_speed_b64:
  "ft_get_mean_speed_rnd b64 (Running 15000 3 75) = Inr 3.25"
  "hw_get_mean_speed_rnd b64 (Running 15000 3 75) = Inr 3.25"
  by code_simp+

lemma run_calories_ft_b64:
  "ft_get_spent_calories_rnd b64 (Running 15000 3 75) = Inr (Some 519.75)"
  by code_simp

lemma run_calories_hw_b64:
  "hw_get_spent_calories_rnd b64 (Running 15000 3 75) = Inr (Some (519.75 + 1 / 2 ^ 43))"
  by code_simp

text \<open>
  Claim C10: for a recognized code with a list of the right length, a positive duration
  and, for WLK, a positive height, the two files produce identical reports: same type
  name, duration, distance, speed and calories. For RUN with the readings 15000, 3, 75
  the calories differ in the last bit of the double: \<^verbatim>\<open>fitness_tracker.py\<close> multiplies
  by \<open>duration * 60\<close>, \<^verbatim>\<open>homework.py\<close> by the duration and then by 60, and the
  product with 3 is rounded on the way. The first returns 519.75, the second the next
  double above it.
\<close>

theorem running_calories_differ_in_doubles:
  "ft_read_package ''RUN'' [15000, 3, 75] = Inr (Running 15000 3 75)
   \<and> hw_read_package ''RUN'' [15000, 3, 75] = Inr (Running 15000 3 75)
   \<and> ft_show_training_info_rnd b64 (Running 15000 3 75) =
       Inr \<lparr>training_type = ''Running'', duration = 3, distance = 9.75, speed = 3.25,
            calories = Some 519.75\<rparr>
   \<and> hw_show_training_info_rnd b64 (Running 15000 3 75) =
       Inr \<lparr>training_type = ''Running'', duration = 3, distance = 9.75, speed = 3.25,
            calories = Some (519.75 + 1 / 2 ^ 43)\<rparr>
   \<and> ft_show_training_info_rnd b64 (Running 15000 3 75)
       \<noteq> hw_show_training_info_rnd b64 (Running 15000 3 75)"
  by (simp add: ft_read_package_def hw_read_package_def ALL_ACTIVITIES_def
      ft_show_training_info_rnd_def hw_show_training_info_rnd_def
      run_distance_b64 run_speed_b64 run_calories_ft_b64 run_calories_hw_b64
      del: ft_get_mean_speed_rnd.simps hw_get_mean_speed_rnd.simps
        ft_get_spent_calories_rnd.simps hw_get_spent_calories_rnd.simps hw_get_distance_rnd.simps)

text \<open>
  Claim C10 as amended: for a recognized code with a list of the right length, a
  positive duration and, for WLK, a positive height, both dispatchers build the same
  record; in exact arithmetic the two reports are identical; under any rounding of the
  arithmetic the two reports have the same type name, duration, distance and speed, and
  for SWM the same calories. The calories of RUN and WLK are left to the exact
  statement: their doubles can differ in the last bit.
\<close>

theorem reports_agree:
  assumes "ft_read_package workout_type data = Inr t" and "0 < duration_of t"
    and "positive_height t"
  shows "hw_read_package workout_type data = Inr t
    \<and> ft_show_training_info t = hw_show_training_info t
    \<and> (\<exists>r. ft_show_training_info t = Inr r)
    \<and> (\<exists>r r'. ft_show_training_info_rnd fl t = Inr r
          \<and> hw_show_training_info_rnd fl t = Inr r'
          \<and> training_type r' = training_type r \<and> duration r' = duration r
          \<and> distance r' = distance r \<and> speed r' = speed r
          \<and> (workout_type = ''SWM'' \<longrightarrow> calories r' = calories r))"
  using read_package_agree [OF assms(1)] exact_reports_agree [OF assms(1)]
    exact_report_exists [OF assms] rounded_reports_agree [OF assms]
  by (intro conjI)

theorem reports_agree_witness:
  "ft_read_package ''SWM'' [720, 1, 80, 25, 40] = Inr (Swimming 720 1 80 25 40)
   \<and> 0 < duration_of (Swimming 720 1 80 25 40)
   \<and> positive_height (Swimming 720 1 80 25 40)
   \<and> hw_read_package ''SWM'' [720, 1, 80, 25, 40] = Inr (Swimming 720 1 80 25 40)
   \<and> ft_show_training_info (Swimming 720 1 80 25 40)
       = hw_show_training_info (Swimming 720 1 80 25 40)
   \<and> (\<exists>r. ft_show_training_info (Swimming 720 1 80 25 40) = Inr r)
   \<and> (\<exists>r r'. ft_show_training_info_rnd b64 (Swimming 720 1 80 25 40) = Inr r
         \<and> hw_show_training_info_rnd b64 (Swimming 720 1 80 25 40) = Inr r'
         \<and> training_type r' = training_type r \<and> duration r' = duration r
         \<and> distance r' = distance r \<and> speed r' = speed r
         \<and> calories r' = calories r)"
proof -
  have h1: "ft_read_package ''SWM'' [720, 1, 80, 25, 40] = Inr (Swimming 720 1 80 25 40)"
    by (simp add: ft_read_package_def ALL_ACTIVITIES_def)
  have h2: "0 < duration_of (Swimming 720 1 80 25 40)"
    by simp
  have h3: "positive_height (Swimming 720 1 80 25 40)"
    by simp
  note th = reports_agree [OF h1 h2 h3, of b64]
  from th obtain r r' where
    "ft_show_training_info_rnd b64 (Swimming 720 1 80 25 40) = Inr r"
    "hw_show_training_info_rnd b64 (Swimming 720 1 80 25 40) = Inr r'"
    "training_type r' = training_type r" "duration r' = duration r"
    "distance r' = distance r" "speed r' = speed r"
    "''SWM'' = ''SWM'' \<longrightarrow> calories r' = calories r"
    by blast
  then have "\<exists>r r'. ft_show_training_info_rnd b64 (Swimming 720 1 80 25 40) = Inr r
         \<and> hw_show_training_info_rnd b64 (Swimming 720 1 80 25 40) = Inr r'
         \<and> training_type r' = training_type r \<and> duration r' = duration r
         \<and> distance r' = distance r \<and> speed r' = speed r
         \<and> calories r' = calories r"
    by blast
  with h1 h2 h3 th [THEN conjunct1] th [THEN conjunct2, THEN conjunct1]
    th [THEN conjunct2, THEN conjunct2, THEN conjunct1]
  show ?thesis
    by (intro conjI)
qed

end
